theory Spec2Isabelle
  imports Main
begin

section \<open>JavaScript strings\<close>

text \<open>
  Paths and arguments are JavaScript strings, modelled as character lists.
  \<open>endsWith s t\<close> is \<open>s.endsWith(t)\<close>; \<open>substring s a b\<close> is \<open>s.substring(a, b)\<close>
  (indices are clamped to the length and swapped when \<open>a > b\<close>).
\<close>

definition endsWith :: "string \<Rightarrow> string \<Rightarrow> bool" where
  "endsWith s t = (length t \<le> length s \<and> drop (length s - length t) s = t)"

definition substring :: "string \<Rightarrow> nat \<Rightarrow> nat \<Rightarrow> string" where
  "substring s a b = (let lo = min a b; hi = max a b in take (hi - lo) (drop lo s))"

text \<open>
  \<open>replaceFirst pat rep s\<close> is \<open>s.replace(pat, rep)\<close> for a string pattern and a
  replacement without \<open>$\<close>: the first occurrence of \<open>pat\<close>, scanning from the left, is
  replaced; the empty pattern matches at index 0.
\<close>

fun startsWith :: "string \<Rightarrow> string \<Rightarrow> bool" where
  "startsWith s [] = True"
| "startsWith [] (p # ps) = False"
| "startsWith (c # cs) (p # ps) = (c = p \<and> startsWith cs ps)"

fun replaceFirst :: "string \<Rightarrow> string \<Rightarrow> string \<Rightarrow> string" where
  "replaceFirst pat rep [] = (if pat = [] then rep else [])"
| "replaceFirst pat rep (c # cs) =
     (if startsWith (c # cs) pat then rep @ drop (length pat) (c # cs)
      else c # replaceFirst pat rep cs)"

section \<open>Data model\<close>

text \<open>Exec mapping row (\<open>@shared/interfaces\<close>): \<open>linux\<close> and \<open>darwin\<close> are optional.\<close>

record ExecMapping =
  win32 :: string
  linux :: "string option"
  darwin :: "string option"

text \<open>Command mapping rule and table (\<open>@shared/mappings/interfaces\<close>).\<close>

record ICommandMapping =
  extensions :: "string list"
  command :: string
  includeFilename :: bool
  includeArgs :: bool
  setCwdToFileDir :: "bool option"

record IAppCommandsMappingData =
  defaultMapping :: ICommandMapping
  commandsMapping :: "ICommandMapping list"

definition EmptyCommandMapping :: ICommandMapping where
  "EmptyCommandMapping =
     \<lparr> extensions = [], command = '''', includeFilename = True, includeArgs = True,
       setCwdToFileDir = None \<rparr>"

text \<open>
  The resolved command that \<open>createCommand\<close> returns; its field \<open>command\<close> is
  \<open>cmdline\<close> here, apart from the rule's template of the same name.
\<close>

record Command =
  cmdline :: string
  cwd :: string

text \<open>
  A child process as the launcher observes it. \<open>pid\<close> is \<open>undefined\<close> when the
  process could not be created. \<open>emits\<close> lists, in order, the events the process emits
  on the four channels the launcher listens to; \<open>stdout\<close> and \<open>stderr\<close> are the
  chunks of the two output streams when the stream exists. A spawn failure is
  delivered as an \<open>error\<close> event.
\<close>

datatype proc_event =
    PDisconnect
  | PError string
  | PExit string
  | PMessage string

record ChildProcess =
  pid :: "int option"
  killed :: bool
  emits :: "proc_event list"
  stdout :: "string list option"
  stderr :: "string list option"

text \<open>
  The host: what the launcher reads from Node and from modules outside this
  development. \<open>platform\<close> is \<open>process.platform\<close>; \<open>pathJoin\<close> is \<open>path.join\<close> and
  \<open>posixJoin\<close> is \<open>path.posix.join\<close>, both at two arguments; \<open>fixSlashes\<close> is the helper
  of \<open>@shared/Util\<close>; \<open>createCommand\<close> is the command mapper of
  \<open>@shared/mappings/CommandMapping\<close>, \<open>Inl\<close> the text of the error it throws;
  \<open>exec\<close> is \<open>child_process.exec(command, {cwd})\<close>, giving the process that the
  operating system makes of the command line and working directory.
\<close>

record host =
  platform :: string
  pathJoin :: "string \<Rightarrow> string \<Rightarrow> string"
  posixJoin :: "string \<Rightarrow> string \<Rightarrow> string"
  fixSlashes :: "string \<Rightarrow> string"
  createCommand :: "string \<Rightarrow> string \<Rightarrow> IAppCommandsMappingData \<Rightarrow> string + Command"
  exec :: "string \<Rightarrow> string \<Rightarrow> ChildProcess"

section \<open>Path resolver\<close>

text \<open>
  \<open>a || b\<close> on an optional string: \<open>undefined\<close> and the empty string are falsy.
\<close>

definition orElse :: "string option \<Rightarrow> string \<Rightarrow> string" where
  "orElse a b = (case a of None \<Rightarrow> b | Some s \<Rightarrow> if s = [] then b else s)"

text \<open>
  The \<open>for\<close> loop over \<open>execMappings\<close> of \<open>resolveApplicationPath\<close>: the first row whose
  \<open>win32\<close> equals \<open>filePath\<close> ends the loop (\<open>break\<close>); the inner \<open>switch\<close> has cases
  for \<open>linux\<close> and \<open>darwin\<close> only.
\<close>

fun scanExecMappings :: "string \<Rightarrow> ExecMapping list \<Rightarrow> string \<Rightarrow> string" where
  "scanExecMappings pf [] filePath = filePath"
| "scanExecMappings pf (mapping # rest) filePath =
     (if win32 mapping = filePath then
        (if pf = ''linux'' then orElse (linux mapping) (win32 mapping)
         else if pf = ''darwin'' then orElse (darwin mapping) (win32 mapping)
         else filePath)
      else scanExecMappings pf rest filePath)"

definition resolveApplicationPath ::
  "host \<Rightarrow> string \<Rightarrow> string \<Rightarrow> ExecMapping list \<Rightarrow> bool \<Rightarrow> string" where
  "resolveApplicationPath h relativePath fpPath execMappings native =
     (let filePath = relativePath;
          filePath = (if platform h \<noteq> ''win32'' \<and> endsWith filePath ''.bat''
                      then substring filePath 0 (length filePath - 4) @ ''.command''
                      else filePath);
          filePath = (if platform h \<noteq> ''win32'' \<and> native
                      then scanExecMappings (platform h) execMappings filePath
                      else filePath)
      in fixSlashes h (pathJoin h fpPath filePath))"

section \<open>Launch orchestrator\<close>

text \<open>
  Game and additional-application records (\<open>@shared/game/interfaces\<close>), with the
  fields the launcher reads. The fields \<open>applicationPath\<close> and \<open>launchCommand\<close> of the
  source carry the record's name as a prefix here.
\<close>

record IGameInfo =
  game_title :: string
  game_applicationPath :: string
  game_launchCommand :: string
  placeholder :: bool

record IAdditionalApplicationInfo =
  addApp_applicationPath :: string
  addApp_launchCommand :: string
  autoRunBefore :: bool
  waitForExit :: bool

text \<open>
  The value a promise of \<open>openExternal\<close> rejects with: the \<open>catch\<close> handler tests its
  truthiness and reads its \<open>toString()\<close>.
\<close>

datatype reason = Falsy | Truthy string

text \<open>
  Launch options. \<open>openExternal\<close> gives the settlement of the promise the injected
  capability returns for a path and its \<open>activate\<close> option: \<open>None\<close> when it fulfils,
  \<open>Some r\<close> when it rejects with \<open>r\<close>. The injected \<open>openDialog\<close> is called for its
  effect only (its promise is dropped), so each call is an \<open>OpenDialog\<close> event of the
  trace below and the record has no field for it. \<open>addApps\<close> is optional in
  \<open>LaunchGameOpts\<close>.
\<close>

record LaunchBaseOpts =
  fpPath :: string
  execMappings :: "ExecMapping list"
  mappings :: IAppCommandsMappingData
  openExternal :: "string \<Rightarrow> bool \<Rightarrow> reason option"
  native :: bool

record LaunchAddAppOpts = LaunchBaseOpts +
  addApp :: IAdditionalApplicationInfo

record LaunchGameOpts = LaunchBaseOpts +
  game :: IGameInfo
  addApps :: "IAdditionalApplicationInfo list option"

record MessageBoxOptions =
  boxType :: string
  title :: string
  message :: string
  buttons :: "string list"

text \<open>
  Log lines, by template. \<open>LaunchCommandMsg pid path arg command\<close> is
  \<open>Launch command (PID: ...) [ path: ..., arg: ..., command: ... ]\<close>;
  \<open>LaunchGameFailedMsg title e\<close> is \<open>Launch Game "title" failed. Error: e\<close>;
  \<open>LaunchGameMsg\<close> and \<open>LaunchGameSetupMsg\<close> carry title, pid, applicationPath,
  launchCommand and command; \<open>ProcessEventMsg event pid args\<close> is the line of the
  lifecycle relay, \<open>event (PID: pid) args\<close>.
\<close>

datatype log_content =
    LaunchCommandMsg "int option" string string Command
  | LaunchGameFailedMsg string string
  | LaunchGameMsg string "int option" string string Command
  | LaunchGameSetupMsg string "int option" string string Command
  | ProcessEventMsg string int string

text \<open>
  What a launch does, in program order: \<open>Exec command cwd\<close> starts a process,
  \<open>Log source content\<close> appends a log entry, \<open>OpenDialog\<close> and \<open>OpenExternal\<close> call the
  injected capabilities, \<open>Awaited\<close> marks that control came back from \<open>await promise\<close>.
  \<open>Later e\<close> is an effect registered at this point that happens at some later time,
  from a listener or a promise handler.
\<close>

datatype event =
    Exec string string
  | Log string log_content
  | OpenDialog MessageBoxOptions
  | OpenExternal string bool
  | Awaited
  | Later event

text \<open>
  How a promise ends: fulfilled, rejected, or never settled. A rejection carries
  either the error of the process's \<open>error\<close> event or the error \<open>createCommand\<close> threw.
\<close>

datatype rejection = ProcessError string | BuildError string

datatype promise = Resolved | Rejected rejection | Pending

definition logSource :: string where
  "logSource = ''Game Launcher''"

text \<open>
  \<open>logProcessOutput\<close>: every event on \<open>disconnect\<close>, \<open>error\<close>, \<open>exit\<close> and \<open>message\<close>, and
  every chunk of an existing output stream, is logged when it arrives, with
  \<open>proc.pid ?? -1\<close>.
\<close>

fun eventName :: "proc_event \<Rightarrow> string" where
  "eventName PDisconnect = ''disconnect''"
| "eventName (PError e) = ''error''"
| "eventName (PExit a) = ''exit''"
| "eventName (PMessage a) = ''message''"

fun eventArgs :: "proc_event \<Rightarrow> string" where
  "eventArgs PDisconnect = []"
| "eventArgs (PError e) = e"
| "eventArgs (PExit a) = a"
| "eventArgs (PMessage a) = a"

definition logStuff :: "ChildProcess \<Rightarrow> string \<Rightarrow> string \<Rightarrow> event" where
  "logStuff proc ev args =
     Later (Log logSource (ProcessEventMsg ev (case pid proc of None \<Rightarrow> - 1 | Some p \<Rightarrow> p) args))"

definition logProcessOutput :: "ChildProcess \<Rightarrow> event list" where
  "logProcessOutput proc =
     map (\<lambda>e. logStuff proc (eventName e) (eventArgs e)) (emits proc)
     @ (case stdout proc of None \<Rightarrow> [] | Some ds \<Rightarrow> map (logStuff proc ''stdout'') ds)
     @ (case stderr proc of None \<Rightarrow> [] | Some ds \<Rightarrow> map (logStuff proc ''stderr'') ds)"

text \<open>
  The promise of \<open>launchCommand\<close> has one listener on \<open>exit\<close> that resolves and one on
  \<open>error\<close> that rejects: the first of the two events settles it.
\<close>

fun settle :: "proc_event list \<Rightarrow> promise" where
  "settle [] = Pending"
| "settle (PExit a # rest) = Resolved"
| "settle (PError e # rest) = Rejected (ProcessError e)"
| "settle (PDisconnect # rest) = settle rest"
| "settle (PMessage a # rest) = settle rest"

text \<open>
  \<open>launchCommand\<close> is not an \<open>async\<close> function: an error thrown by \<open>createCommand\<close>
  leaves it as an exception (\<open>Inl\<close>), otherwise it returns a promise (\<open>Inr\<close>).
\<close>

definition launchCommand ::
  "host \<Rightarrow> string \<Rightarrow> string \<Rightarrow> IAppCommandsMappingData \<Rightarrow> (string + promise) \<times> event list" where
  "launchCommand h appPath appArgs maps =
     (case createCommand h appPath appArgs maps of
        Inl e \<Rightarrow> (Inl e, [])
      | Inr cmd \<Rightarrow>
          (let proc = exec h (cmdline cmd) (cwd cmd) in
           (Inr (if killed proc then Resolved else settle (emits proc)),
            [Exec (cmdline cmd) (cwd cmd)] @ logProcessOutput proc
            @ [Log logSource (LaunchCommandMsg (pid proc) appPath appArgs cmd)])))"

definition handleSpecialApplicationPath ::
  "host \<Rightarrow> string \<Rightarrow> string \<Rightarrow> string \<Rightarrow> (string \<Rightarrow> bool \<Rightarrow> reason option) \<Rightarrow> bool \<times> event list" where
  "handleSpecialApplicationPath h applicationPath launchCmd fp openExt =
     (if applicationPath = '':message:'' then
        (True, [OpenDialog \<lparr> boxType = ''info'', title = ''About This Game'',
                             message = launchCmd, buttons = [''Ok''] \<rparr>])
      else if applicationPath = '':extras:'' then
        (let folderPath = fixSlashes h (pathJoin h fp (posixJoin h ''Extras'' launchCmd)) in
         (True,
          OpenExternal folderPath True #
          (case openExt folderPath True of
             None \<Rightarrow> []
           | Some Falsy \<Rightarrow> []
           | Some (Truthy txt) \<Rightarrow>
               [Later (OpenDialog \<lparr> boxType = ''error'', title = ''Failed to Open Extras'',
                                     message = txt @ [CHR 0x0A] @ ''Path: '' @ folderPath,
                                     buttons = [''Ok''] \<rparr>)])))
      else (False, []))"

definition launchAdditionalApplication :: "host \<Rightarrow> LaunchAddAppOpts \<Rightarrow> promise \<times> event list" where
  "launchAdditionalApplication h opts =
     (case handleSpecialApplicationPath h (addApp_applicationPath (addApp opts))
             (addApp_launchCommand (addApp opts)) (fpPath opts) (openExternal opts) of
        (handled, t) \<Rightarrow>
          if \<not> handled then
            (let appPath = resolveApplicationPath h (addApp_applicationPath (addApp opts))
                             (fpPath opts) (execMappings opts) (native opts) in
             case launchCommand h appPath (addApp_launchCommand (addApp opts)) (mappings opts) of
               (Inl e, t') \<Rightarrow> (Rejected (BuildError e), t @ t')
             | (Inr p, t') \<Rightarrow> (p, t @ t'))
          else (Resolved, t))"

text \<open>
  The options \<open>launchGame\<close> passes for one additional application: the fields of
  \<open>addAppOpts\<close> copied from its own options, and \<open>addApp\<close>.
\<close>

definition addAppOpts :: "LaunchGameOpts \<Rightarrow> IAdditionalApplicationInfo \<Rightarrow> LaunchAddAppOpts" where
  "addAppOpts opts a =
     \<lparr> fpPath = fpPath opts, execMappings = execMappings opts, mappings = mappings opts,
       openExternal = openExternal opts, native = native opts, addApp = a \<rparr>"

text \<open>
  The \<open>for\<close> loop of \<open>launchGame\<close> over \<open>opts.addApps\<close>. The promise is how the loop
  leaves the surrounding \<open>async\<close> function: \<open>Resolved\<close> when the loop ran to its end and
  control goes on, \<open>Rejected\<close> when an awaited promise rejected (the exception leaves
  \<open>launchGame\<close>), \<open>Pending\<close> when an awaited promise never settles.
\<close>

fun runAddApps ::
  "host \<Rightarrow> LaunchGameOpts \<Rightarrow> IAdditionalApplicationInfo list \<Rightarrow> promise \<times> event list" where
  "runAddApps h opts [] = (Resolved, [])"
| "runAddApps h opts (a # rest) =
     (if autoRunBefore a then
        (case launchAdditionalApplication h (addAppOpts opts a) of
           (p, t) \<Rightarrow>
             if waitForExit a then
               (case p of
                  Resolved \<Rightarrow> (case runAddApps h opts rest of (q, t') \<Rightarrow> (q, t @ [Awaited] @ t'))
                | Rejected e \<Rightarrow> (Rejected e, t)
                | Pending \<Rightarrow> (Pending, t))
             else (case runAddApps h opts rest of (q, t') \<Rightarrow> (q, t @ t')))
      else runAddApps h opts rest)"

definition launchGame :: "host \<Rightarrow> LaunchGameOpts \<Rightarrow> promise \<times> event list" where
  "launchGame h opts =
     (if placeholder (game opts) then (Resolved, [])
      else
        (case (case addApps opts of None \<Rightarrow> (Resolved, []) | Some as \<Rightarrow> runAddApps h opts as) of
           (Resolved, t) \<Rightarrow>
             (let gamePath = resolveApplicationPath h (game_applicationPath (game opts))
                               (fpPath opts) (execMappings opts) (native opts) in
              case createCommand h gamePath (game_launchCommand (game opts)) (mappings opts) of
                Inl e \<Rightarrow>
                  (Resolved, t @ [Log logSource (LaunchGameFailedMsg (game_title (game opts)) e)])
              | Inr cmd \<Rightarrow>
                  (let proc = exec h (cmdline cmd) (cwd cmd) in
                   (Resolved,
                    t @ [Exec (cmdline cmd) (cwd cmd)] @ logProcessOutput proc
                    @ [Log logSource
                         (LaunchGameMsg (game_title (game opts)) (pid proc)
                            (game_applicationPath (game opts)) (game_launchCommand (game opts))
                            cmd)])))
         | (Rejected e, t) \<Rightarrow> (Rejected e, t)
         | (Pending, t) \<Rightarrow> (Pending, t)))"

text \<open>
  Modelled from the spec: \<open>getFilename\<close> of \<open>@shared/Util\<close> is called by
  \<open>launchGameSetup\<close> and its source is not part of this development. It is the
  filename component of a path, "the part after the last separator"; both slash
  styles separate.
\<close>

definition isSeparator :: "char \<Rightarrow> bool" where
  "isSeparator c = (c = CHR ''/'' \<or> c = CHR 0x5C)"

definition getFilename :: "string \<Rightarrow> string" where
  "getFilename filePath = rev (takeWhile (\<lambda>c. \<not> isSeparator c) (rev filePath))"

definition launchGameSetup :: "host \<Rightarrow> LaunchGameOpts \<Rightarrow> promise \<times> event list" where
  "launchGameSetup h opts =
     (let setupPath = replaceFirst (getFilename (game_applicationPath (game opts)))
                        ''install.command'' (game_applicationPath (game opts));
          gamePath = resolveApplicationPath h setupPath (fpPath opts) (execMappings opts)
                       (native opts) in
      case createCommand h gamePath (game_launchCommand (game opts)) (mappings opts) of
        Inl e \<Rightarrow> (Rejected (BuildError e), [])
      | Inr cmd \<Rightarrow>
          (let proc = exec h (cmdline cmd) (cwd cmd) in
           (Resolved,
            [Exec (cmdline cmd) (cwd cmd)] @ logProcessOutput proc
            @ [Log logSource
                 (LaunchGameSetupMsg (game_title (game opts)) (pid proc)
                    (game_applicationPath (game opts)) (game_launchCommand (game opts))
                    cmd)])))"

section \<open>Back-end start-up\<close>

text \<open>
  The part of the back-end state that start-up sets before and while it loads the
  command mappings. A field that holds an error proxy until start-up assigns it is
  \<open>None\<close> until then. \<open>'p\<close> and \<open>'c\<close> are the preferences and configuration data.
  The fields of \<open>BackInitArgs\<close> carry the prefix \<open>arg\<close> here.
\<close>

record BackInitArgs =
  arg_secret :: string
  arg_configFolder :: string
  arg_exePath :: string
  arg_basePath :: string

record ('p, 'c) BackState =
  isInitialized :: bool
  secret :: "string option"
  preferences :: "'p option"
  config :: "'c option"
  configFolder :: "string option"
  exePath :: "string option"
  basePath :: "string option"
  localeCode :: "string option"
  commandMappings :: IAppCommandsMappingData

text \<open>The module's \<open>state\<close> as it is declared, before any message arrives.\<close>

definition state0 :: "('p, 'c) BackState" where
  "state0 =
     \<lparr> isInitialized = False, secret = None, preferences = None, config = None,
       configFolder = None, exePath = None, basePath = None, localeCode = None,
       commandMappings = \<lparr> defaultMapping = EmptyCommandMapping, commandsMapping = [] \<rparr> \<rparr>"

definition preferencesFilename :: string where
  "preferencesFilename = ''preferences.json''"

definition configFilename :: string where
  "configFilename = ''config.json''"

definition commandMappingsFilename :: "host \<Rightarrow> string" where
  "commandMappingsFilename h = ''mappings.'' @ platform h @ ''.json''"

text \<open>
  What start-up reads: \<open>JSON.parse\<close> of the init message, the two
  \<open>readOrCreateFile\<close> calls and \<open>readJsonFile\<close>, each \<open>Inl\<close> the text of the error it
  throws (for \<open>readJsonFile\<close>: the file is missing or is not JSON).
\<close>

record ('p, 'c) initEnv =
  parseArgs :: "string \<Rightarrow> string + BackInitArgs"
  readPreferences :: "string \<Rightarrow> string + 'p"
  readConfig :: "string \<Rightarrow> string + 'c"
  readJsonFile :: "string \<Rightarrow> string + IAppCommandsMappingData"

text \<open>
  \<open>initialize\<close> up to the end of the \<open>try\<close>/\<open>catch\<close> around the mappings file. The
  result says how control leaves this part: \<open>AlreadyInitialized\<close> is the early
  return, \<open>Threw e\<close> an exception that ends \<open>initialize\<close>, \<open>Continues\<close> that control
  reaches the statement after the \<open>catch\<close>. The third component lists the lines
  written with \<open>console.error\<close>.
\<close>

datatype init_result = AlreadyInitialized | Threw string | Continues

definition mappingsWarning :: "host \<Rightarrow> string \<Rightarrow> string" where
  "mappingsWarning h e =
     ''Cannot load mappings file '' @ [CHR 0x22] @ commandMappingsFilename h @ [CHR 0x22]
     @ ''. '' @ e
     @ ''. Check if file exists and have valid values. Without that file most of the entries won''
     @ [CHR 0x27] @ ''t work.''"

definition initialize ::
  "host \<Rightarrow> ('p, 'c) initEnv \<Rightarrow> string \<Rightarrow> ('p, 'c) BackState
     \<Rightarrow> init_result \<times> ('p, 'c) BackState \<times> string list" where
  "initialize h env msg state =
     (if isInitialized state then (AlreadyInitialized, state, [])
      else
        (let state = state\<lparr> isInitialized := True \<rparr> in
         case parseArgs env msg of
           Inl e \<Rightarrow> (Threw e, state, [])
         | Inr content \<Rightarrow>
             (let state = state\<lparr> secret := Some (arg_secret content),
                                 configFolder := Some (arg_configFolder content),
                                 localeCode := Some ''unknown'',
                                 exePath := Some (arg_exePath content),
                                 basePath := Some (arg_basePath content) \<rparr> in
              case readPreferences env (pathJoin h (arg_configFolder content) preferencesFilename) of
                Inl e \<Rightarrow> (Threw e, state, [])
              | Inr p \<Rightarrow>
                  (let state = state\<lparr> preferences := Some p \<rparr> in
                   case readConfig env (pathJoin h (arg_configFolder content) configFilename) of
                     Inl e \<Rightarrow> (Threw e, state, [])
                   | Inr c \<Rightarrow>
                       (let state = state\<lparr> config := Some c \<rparr>;
                            mappingsPath = pathJoin h (arg_basePath content)
                                             (commandMappingsFilename h) in
                        case readJsonFile env mappingsPath of
                          Inl e \<Rightarrow> (Continues, state, [mappingsWarning h e])
                        | Inr m \<Rightarrow> (Continues, state\<lparr> commandMappings := m \<rparr>, []))))))"

section \<open>Concrete hosts\<close>

text \<open>
  Hosts on which the model is evaluated. \<open>slashJoin\<close> is \<open>path.posix.join\<close> where it
  only concatenates: both arguments non-empty, the first without a trailing
  slash, no empty, \<open>.\<close> or \<open>..\<close> segment. \<open>backslashJoin\<close> is \<open>path.win32.join\<close>
  under the same conditions. \<open>runDirectly\<close> stands for a command mapper whose
  command line is the path followed by the arguments; \<open>exitsAtOnce\<close> is a process
  that starts and exits, \<open>failsToSpawn\<close> one that the operating system does not
  create, \<open>keepsRunning\<close> one that starts and never exits, \<open>breaksPipe\<close> one that
  starts, sends a message and then emits an error before it exits.
\<close>

definition slashJoin :: "string \<Rightarrow> string \<Rightarrow> string" where
  "slashJoin a b = a @ ''/'' @ b"

definition backslashJoin :: "string \<Rightarrow> string \<Rightarrow> string" where
  "backslashJoin a b = a @ [CHR 0x5C] @ b"

definition toForward :: "string \<Rightarrow> string" where
  "toForward s = map (\<lambda>c. if c = CHR 0x5C then CHR ''/'' else c) s"

definition toBackward :: "string \<Rightarrow> string" where
  "toBackward s = map (\<lambda>c. if c = CHR ''/'' then CHR 0x5C else c) s"

definition runDirectly :: "string \<Rightarrow> string \<Rightarrow> IAppCommandsMappingData \<Rightarrow> string + Command" where
  "runDirectly appPath appArgs maps =
     Inr \<lparr> cmdline = (if appArgs = [] then appPath else appPath @ '' '' @ appArgs),
           cwd = [] \<rparr>"

definition exitsAtOnce :: ChildProcess where
  "exitsAtOnce =
     \<lparr> pid = Some 4242, killed = False, emits = [PExit ''0''], stdout = Some [],
       stderr = Some [] \<rparr>"




definition linuxHost :: host where
  "linuxHost =
     \<lparr> platform = ''linux'', pathJoin = slashJoin, posixJoin = slashJoin,
       fixSlashes = toForward, createCommand = runDirectly, exec = (\<lambda>c d. exitsAtOnce) \<rparr>"

definition windowsHost :: host where
  "windowsHost =
     \<lparr> platform = ''win32'', pathJoin = backslashJoin, posixJoin = slashJoin,
       fixSlashes = toBackward, createCommand = runDirectly, exec = (\<lambda>c d. exitsAtOnce) \<rparr>"

definition emptyMappings :: IAppCommandsMappingData where
  "emptyMappings = \<lparr> defaultMapping = EmptyCommandMapping, commandsMapping = [] \<rparr>"

text \<open>
  Launch options over the collection root \<open>/root\<close> with no exec mappings, the empty
  mapping table, \<open>native\<close> false and an \<open>openExternal\<close> that settles as \<open>ext\<close> says.
\<close>

definition gameOptsAt ::
  "(string \<Rightarrow> bool \<Rightarrow> reason option) \<Rightarrow> IGameInfo \<Rightarrow> IAdditionalApplicationInfo list option
     \<Rightarrow> LaunchGameOpts" where
  "gameOptsAt ext g apps =
     \<lparr> fpPath = ''/root'', execMappings = [], mappings = emptyMappings, openExternal = ext,
       native = False, game = g, addApps = apps \<rparr>"

definition addAppOptsAt ::
  "(string \<Rightarrow> bool \<Rightarrow> reason option) \<Rightarrow> IAdditionalApplicationInfo \<Rightarrow> LaunchAddAppOpts" where
  "addAppOptsAt ext a =
     \<lparr> fpPath = ''/root'', execMappings = [], mappings = emptyMappings, openExternal = ext,
       native = False, addApp = a \<rparr>"






section \<open>Facts about the string helpers and the exec-mapping scan\<close>

lemma endsWith_unique:
  assumes "endsWith p s" and "endsWith p t" and "length s = length t"
  shows "s = t"
proof -
  have "drop (length p - length s) p = s"
    using assms(1) unfolding endsWith_def by (rule conjunct2)
  moreover have "drop (length p - length t) p = t"
    using assms(2) unfolding endsWith_def by (rule conjunct2)
  ultimately show ?thesis
    using assms(3) by (metis (no_types))
qed

lemma substring_from_0: "substring s 0 n = take n s"
  by (simp add: substring_def)

lemma orElse_cases: "orElse a b = (if a = None \<or> a = Some [] then b else the a)"
  by (auto simp: orElse_def split: option.splits)

lemma scanExecMappings_find:
  "scanExecMappings pf ms p =
     (case find (\<lambda>m. win32 m = p) ms of
        None \<Rightarrow> p
      | Some m \<Rightarrow>
          if pf = ''linux'' then orElse (linux m) (win32 m)
          else if pf = ''darwin'' then orElse (darwin m) (win32 m)
          else p)"
  by (induction ms) simp_all

lemma scanExecMappings_no_match:
  "\<forall>m \<in> set ms. win32 m \<noteq> p \<Longrightarrow> scanExecMappings pf ms p = p"
  by (induction ms) simp_all

section \<open>Facts about the pre-run loop and the lifecycle relay\<close>


















section \<open>Path resolver: exec mappings\<close>

text \<open>
  C4. Let \<open>p'\<close> be the input path after the batch-script rewrite. With \<open>native\<close> true
  on Linux the path joined onto the collection root is taken from the first row of
  the exec-mapping list whose \<open>win32\<close> equals \<open>p'\<close>: its \<open>linux\<close> field, or its \<open>win32\<close>
  value when that field is absent or empty; with no such row it is \<open>p'\<close>. On macOS
  the same holds with the \<open>darwin\<close> field. With \<open>native\<close> false the path joined is
  \<open>p'\<close> whatever the list holds.
\<close>

theorem resolveApplicationPath_exec_mapping:
  assumes "p' = (if platform h \<noteq> ''win32'' \<and> endsWith p ''.bat''
                 then take (length p - 4) p @ ''.command'' else p)"
  shows
    "(platform h = ''linux'' \<longrightarrow>
        resolveApplicationPath h p fp ms True =
          fixSlashes h (pathJoin h fp
            (case find (\<lambda>m. win32 m = p') ms of
               None \<Rightarrow> p'
             | Some m \<Rightarrow> if linux m = None \<or> linux m = Some [] then win32 m else the (linux m))))
     \<and> (platform h = ''darwin'' \<longrightarrow>
        resolveApplicationPath h p fp ms True =
          fixSlashes h (pathJoin h fp
            (case find (\<lambda>m. win32 m = p') ms of
               None \<Rightarrow> p'
             | Some m \<Rightarrow> if darwin m = None \<or> darwin m = Some [] then win32 m else the (darwin m))))
     \<and> resolveApplicationPath h p fp ms False = fixSlashes h (pathJoin h fp p')"
  using assms
  by (simp add: resolveApplicationPath_def Let_def substring_from_0 scanExecMappings_find
        orElse_cases split: option.splits)

text \<open>
  The scenario of the specification on a Linux host, with a second row for the same
  \<open>win32\<close> path that the scan never reaches: \<open>A\<close> resolves to a path ending in \<open>B\<close>
  with \<open>native\<close> true and in \<open>A\<close> with \<open>native\<close> false.
\<close>

theorem resolveApplicationPath_exec_mapping_witness:
  "platform linuxHost = ''linux''
   \<and> resolveApplicationPath linuxHost ''A'' ''/root''
        [\<lparr> win32 = ''A'', linux = Some ''B'', darwin = None \<rparr>,
         \<lparr> win32 = ''A'', linux = Some ''C'', darwin = None \<rparr>] True = ''/root/B''
   \<and> resolveApplicationPath linuxHost ''A'' ''/root''
        [\<lparr> win32 = ''A'', linux = Some ''B'', darwin = None \<rparr>,
         \<lparr> win32 = ''A'', linux = Some ''C'', darwin = None \<rparr>] False = ''/root/A''"
  using resolveApplicationPath_exec_mapping [of "''A''" linuxHost "''A''" "''/root''"
      "[\<lparr> win32 = ''A'', linux = Some ''B'', darwin = None \<rparr>,
        \<lparr> win32 = ''A'', linux = Some ''C'', darwin = None \<rparr>]"]
  by (simp add: linuxHost_def endsWith_def slashJoin_def toForward_def)

section \<open>Path resolver: the batch-script rewrite\<close>

text \<open>
  C5, as stated, fails where a native substitution applies to the rewritten path:
  on Linux \<open>eXo/run.bat\<close> with \<open>native\<close> true and a row for \<open>eXo/run.command\<close> resolves
  to the row's \<open>linux\<close> path, not to \<open>eXo/run.command\<close> under the root.
\<close>

theorem resolveApplicationPath_bat_native_counterexample:
  "endsWith ''eXo/run.bat'' ''.bat''
   \<and> resolveApplicationPath linuxHost ''eXo/run.bat'' ''/root''
        [\<lparr> win32 = ''eXo/run.command'', linux = Some ''native/run.sh'', darwin = None \<rparr>] True
      = ''/root/native/run.sh''
   \<and> resolveApplicationPath linuxHost ''eXo/run.bat'' ''/root''
        [\<lparr> win32 = ''eXo/run.command'', linux = Some ''native/run.sh'', darwin = None \<rparr>] True
      \<noteq> fixSlashes linuxHost (pathJoin linuxHost ''/root''
           (take (length ''eXo/run.bat'' - 4) ''eXo/run.bat'' @ ''.command''))"
  by (simp add: resolveApplicationPath_def linuxHost_def endsWith_def substring_def orElse_def
        slashJoin_def toForward_def)

text \<open>
  C5, amended. On every OS other than Windows, for an input path ending in \<open>.bat\<close>
  to which no native substitution applies (\<open>native\<close> is false, or no exec-mapping
  row has the rewritten path as its \<open>win32\<close>), the path joined onto the collection
  root is the input with its final four characters replaced by \<open>.command\<close>. On
  Windows the path joined onto the root is the input itself, for every input.
\<close>

theorem resolveApplicationPath_bat_rewrite:
  "(platform h \<noteq> ''win32'' \<and> endsWith p ''.bat''
      \<and> (\<not> isNative \<or> (\<forall>m \<in> set ms. win32 m \<noteq> take (length p - 4) p @ ''.command''))
      \<longrightarrow> resolveApplicationPath h p fp ms isNative =
            fixSlashes h (pathJoin h fp (take (length p - 4) p @ ''.command'')))
   \<and> (platform h = ''win32'' \<longrightarrow>
        resolveApplicationPath h p fp ms isNative = fixSlashes h (pathJoin h fp p))"
  by (auto simp: resolveApplicationPath_def Let_def substring_from_0 scanExecMappings_no_match)

theorem resolveApplicationPath_bat_rewrite_witness:
  "platform linuxHost \<noteq> ''win32'' \<and> endsWith ''eXo/run.bat'' ''.bat''
   \<and> win32 \<lparr> win32 = ''eXo/other.command'', linux = Some ''native/other.sh'', darwin = None \<rparr>
      \<noteq> take (length ''eXo/run.bat'' - 4) ''eXo/run.bat'' @ ''.command''
   \<and> resolveApplicationPath linuxHost ''eXo/run.bat'' ''/root''
        [\<lparr> win32 = ''eXo/other.command'', linux = Some ''native/other.sh'', darwin = None \<rparr>]
        True = ''/root/eXo/run.command''
   \<and> platform windowsHost = ''win32''
   \<and> resolveApplicationPath windowsHost ''eXo/run.bat'' ''C:'' [] True
      = ''C:'' @ [CHR 0x5C] @ ''eXo'' @ [CHR 0x5C] @ ''run.bat''"
  using
    resolveApplicationPath_bat_rewrite [of linuxHost "''eXo/run.bat''" True
      "[\<lparr> win32 = ''eXo/other.command'', linux = Some ''native/other.sh'', darwin = None \<rparr>]"
      "''/root''"]
    resolveApplicationPath_bat_rewrite [of windowsHost "''eXo/run.bat''" True "[]" "''C:''"]
  by (simp add: linuxHost_def windowsHost_def endsWith_def slashJoin_def backslashJoin_def
        toForward_def toBackward_def)

text \<open>
  C10, as stated, fails where a native substitution applies: on Linux, with
  \<open>native\<close> true and an exec-mapping row keyed on \<open>eXo/RUN.BAT\<close>, that path resolves
  to the row's \<open>linux\<close> path, which does not end in \<open>.BAT\<close>.
\<close>

theorem resolveApplicationPath_bat_case_native_counterexample:
  "endsWith ''eXo/RUN.BAT'' ''.BAT''
   \<and> resolveApplicationPath linuxHost ''eXo/RUN.BAT'' ''/root''
        [\<lparr> win32 = ''eXo/RUN.BAT'', linux = Some ''native/run.sh'', darwin = None \<rparr>] True
      = ''/root/native/run.sh''
   \<and> \<not> endsWith ''/root/native/run.sh'' ''.BAT''
   \<and> resolveApplicationPath linuxHost ''eXo/RUN.BAT'' ''/root''
        [\<lparr> win32 = ''eXo/RUN.BAT'', linux = Some ''native/run.sh'', darwin = None \<rparr>] True
      \<noteq> fixSlashes linuxHost (pathJoin linuxHost ''/root'' ''eXo/RUN.BAT'')"
  by (simp add: resolveApplicationPath_def linuxHost_def endsWith_def orElse_def
        slashJoin_def toForward_def)

text \<open>
  C10, amended. The rewrite compares the last four characters with \<open>.bat\<close>
  exactly. For an input path ending in any other four characters (\<open>.BAT\<close>, \<open>.Bat\<close>,
  ...) to which no native substitution applies (the OS is Windows, or \<open>native\<close> is
  false, or no exec-mapping row has the input path as its \<open>win32\<close>), the path joined
  onto the collection root is the input itself, extension included, on every OS.
  For every such input, substitution or not, the rewrite to \<open>.command\<close> does not
  fire: the path that the exec-mapping scan and the join work on is the input.
\<close>

theorem resolveApplicationPath_bat_case_sensitive:
  assumes "endsWith p s" and "length s = 4" and "s \<noteq> ''.bat''"
  shows "(platform h = ''win32'' \<or> \<not> isNative \<or> (\<forall>m \<in> set ms. win32 m \<noteq> p)
            \<longrightarrow> resolveApplicationPath h p fp ms isNative = fixSlashes h (pathJoin h fp p))
     \<and> resolveApplicationPath h p fp ms isNative =
           fixSlashes h (pathJoin h fp
             (if platform h \<noteq> ''win32'' \<and> isNative
              then scanExecMappings (platform h) ms p else p))"
proof -
  have "\<not> endsWith p ''.bat''"
    using assms endsWith_unique [of p s "''.bat''"] by auto
  then show ?thesis
    by (auto simp: resolveApplicationPath_def Let_def scanExecMappings_no_match)
qed

theorem resolveApplicationPath_bat_case_sensitive_witness:
  "endsWith ''eXo/RUN.BAT'' ''.BAT'' \<and> length ''.BAT'' = 4 \<and> ''.BAT'' \<noteq> ''.bat''
   \<and> win32 \<lparr> win32 = ''eXo/other.BAT'', linux = Some ''native/other.sh'', darwin = None \<rparr>
      \<noteq> ''eXo/RUN.BAT''
   \<and> resolveApplicationPath linuxHost ''eXo/RUN.BAT'' ''/root''
        [\<lparr> win32 = ''eXo/other.BAT'', linux = Some ''native/other.sh'', darwin = None \<rparr>] True
      = ''/root/eXo/RUN.BAT''
   \<and> endsWith ''eXo/Run.Bat'' ''.Bat'' \<and> length ''.Bat'' = 4 \<and> ''.Bat'' \<noteq> ''.bat''
   \<and> resolveApplicationPath linuxHost ''eXo/Run.Bat'' ''/root''
        [\<lparr> win32 = ''eXo/Run.Bat'', linux = Some ''native/run.sh'', darwin = None \<rparr>] False
      = ''/root/eXo/Run.Bat''
   \<and> platform windowsHost = ''win32''
   \<and> resolveApplicationPath windowsHost ''eXo/Run.Bat'' ''C:''
        [\<lparr> win32 = ''eXo/Run.Bat'', linux = Some ''native/run.sh'', darwin = None \<rparr>] True
      = ''C:'' @ [CHR 0x5C] @ ''eXo'' @ [CHR 0x5C] @ ''Run.Bat''"
proof -
  let ?other = "\<lparr> win32 = ''eXo/other.BAT'', linux = Some ''native/other.sh'', darwin = None \<rparr>"
  let ?row = "\<lparr> win32 = ''eXo/Run.Bat'', linux = Some ''native/run.sh'', darwin = None \<rparr>"
  have a: "endsWith ''eXo/RUN.BAT'' ''.BAT''" and b: "endsWith ''eXo/Run.Bat'' ''.Bat''"
    by (simp_all add: endsWith_def)
  have c: "length ''.BAT'' = 4" "''.BAT'' \<noteq> ''.bat''" "length ''.Bat'' = 4" "''.Bat'' \<noteq> ''.bat''"
    by simp_all
  have d: "win32 ?other \<noteq> ''eXo/RUN.BAT''"
    by simp
  have w: "platform windowsHost = ''win32''"
    by (simp add: windowsHost_def)
  from d resolveApplicationPath_bat_case_sensitive
      [OF a c(1) c(2), of linuxHost True "[?other]" "''/root''", THEN conjunct1]
  have 1: "resolveApplicationPath linuxHost ''eXo/RUN.BAT'' ''/root'' [?other] True
             = ''/root/eXo/RUN.BAT''"
    by (simp add: linuxHost_def slashJoin_def toForward_def)
  from resolveApplicationPath_bat_case_sensitive
      [OF b c(3) c(4), of linuxHost False "[?row]" "''/root''", THEN conjunct1]
  have 2: "resolveApplicationPath linuxHost ''eXo/Run.Bat'' ''/root'' [?row] False
             = ''/root/eXo/Run.Bat''"
    by (simp add: linuxHost_def slashJoin_def toForward_def)
  from w resolveApplicationPath_bat_case_sensitive
      [OF b c(3) c(4), of windowsHost True "[?row]" "''C:''", THEN conjunct1]
  have 3: "resolveApplicationPath windowsHost ''eXo/Run.Bat'' ''C:'' [?row] True
             = ''C:'' @ [CHR 0x5C] @ ''eXo'' @ [CHR 0x5C] @ ''Run.Bat''"
    by (simp add: windowsHost_def backslashJoin_def toBackward_def)
  from a b c d w 1 2 3 show ?thesis
    by simp
qed

section \<open>Launch orchestrator: pseudo-paths and placeholders\<close>

text \<open>
  C6. For an additional application whose \<open>applicationPath\<close> is exactly \<open>:message:\<close>,
  on every host and whatever the other options are, \<open>launchAdditionalApplication\<close>
  resolves at once and does one thing only: it calls the dialog capability once,
  with type \<open>info\<close>, title \<open>About This Game\<close>, the add-app's \<open>launchCommand\<close> as the
  message and the single button \<open>Ok\<close>. No process is started; the result does not
  depend on the path functions of the host, on the exec mappings or on \<open>native\<close>.
\<close>

theorem launchAdditionalApplication_message:
  assumes "addApp_applicationPath (addApp opts) = '':message:''"
  shows "launchAdditionalApplication h opts =
           (Resolved,
            [OpenDialog \<lparr> boxType = ''info'', title = ''About This Game'',
                           message = addApp_launchCommand (addApp opts), buttons = [''Ok''] \<rparr>])"
  using assms by (simp add: launchAdditionalApplication_def handleSpecialApplicationPath_def)

theorem launchAdditionalApplication_message_witness:
  "addApp_applicationPath
     (addApp (addAppOptsAt (\<lambda>p a. None)
        \<lparr> addApp_applicationPath = '':message:'', addApp_launchCommand = ''Hello'',
          autoRunBefore = False, waitForExit = False \<rparr>)) = '':message:''
   \<and> launchAdditionalApplication linuxHost
        (addAppOptsAt (\<lambda>p a. None)
           \<lparr> addApp_applicationPath = '':message:'', addApp_launchCommand = ''Hello'',
             autoRunBefore = False, waitForExit = False \<rparr>)
      = (Resolved,
         [OpenDialog \<lparr> boxType = ''info'', title = ''About This Game'', message = ''Hello'',
                        buttons = [''Ok''] \<rparr>])"
  using launchAdditionalApplication_message
    [of "addAppOptsAt (\<lambda>p a. None)
           \<lparr> addApp_applicationPath = '':message:'', addApp_launchCommand = ''Hello'',
             autoRunBefore = False, waitForExit = False \<rparr>" linuxHost]
  by (simp add: addAppOptsAt_def)

text \<open>
  C7, as stated, fails for a failure without an error value: the \<open>catch\<close> handler
  opens the dialog only \<open>if (error)\<close>, so when \<open>openExternal\<close> rejects with a falsy
  value no dialog follows.
\<close>

theorem launchAdditionalApplication_extras_falsy_counterexample:
  "openExternal
     (addAppOptsAt (\<lambda>p a. Some Falsy)
        \<lparr> addApp_applicationPath = '':extras:'', addApp_launchCommand = ''manual.pdf'',
          autoRunBefore = False, waitForExit = False \<rparr>) ''/root/Extras/manual.pdf'' True
     = Some Falsy
   \<and> launchAdditionalApplication linuxHost
        (addAppOptsAt (\<lambda>p a. Some Falsy)
           \<lparr> addApp_applicationPath = '':extras:'', addApp_launchCommand = ''manual.pdf'',
             autoRunBefore = False, waitForExit = False \<rparr>)
      = (Resolved, [OpenExternal ''/root/Extras/manual.pdf'' True])"
  by (simp add: launchAdditionalApplication_def handleSpecialApplicationPath_def
        addAppOptsAt_def linuxHost_def slashJoin_def toForward_def)

text \<open>
  C7, amended. For an additional application whose \<open>applicationPath\<close> is exactly
  \<open>:extras:\<close>, \<open>launchAdditionalApplication\<close> resolves, starts no process, and calls
  the open-externally capability, with \<open>activate\<close> set, on
  \<open>fixSlashes(path.join(fpPath, path.posix.join("Extras", launchCommand)))\<close>. When
  that capability fulfils nothing else happens. When it rejects with a falsy
  value nothing else happens either: no dialog is opened. When it rejects with a
  truthy error, the dialog capability is called later with type \<open>error\<close>, title
  \<open>Failed to Open Extras\<close> and the message made of the error's text, a line break,
  \<open>Path: \<close> and the resolved path.
\<close>

theorem launchAdditionalApplication_extras:
  assumes "addApp_applicationPath (addApp opts) = '':extras:''"
      and "folderPath = fixSlashes h (pathJoin h (fpPath opts)
                          (posixJoin h ''Extras'' (addApp_launchCommand (addApp opts))))"
  shows "fst (launchAdditionalApplication h opts) = Resolved
     \<and> (\<exists>rest. snd (launchAdditionalApplication h opts) = OpenExternal folderPath True # rest
                \<and> (\<forall>c d. Exec c d \<notin> set rest))
     \<and> (openExternal opts folderPath True = None \<longrightarrow>
          snd (launchAdditionalApplication h opts) = [OpenExternal folderPath True])
     \<and> (openExternal opts folderPath True = Some Falsy \<longrightarrow>
          snd (launchAdditionalApplication h opts) = [OpenExternal folderPath True])
     \<and> (\<forall>txt. openExternal opts folderPath True = Some (Truthy txt) \<longrightarrow>
          snd (launchAdditionalApplication h opts) =
            [OpenExternal folderPath True,
             Later (OpenDialog \<lparr> boxType = ''error'', title = ''Failed to Open Extras'',
                                  message = txt @ [CHR 0x0A] @ ''Path: '' @ folderPath,
                                  buttons = [''Ok''] \<rparr>)])"
  using assms
  by (auto simp: launchAdditionalApplication_def handleSpecialApplicationPath_def Let_def
        split: option.splits reason.splits)

theorem launchAdditionalApplication_extras_witness:
  "addApp_applicationPath
     (addApp (addAppOptsAt (\<lambda>p a. Some (Truthy ''Error: not found''))
        \<lparr> addApp_applicationPath = '':extras:'', addApp_launchCommand = ''manual.pdf'',
          autoRunBefore = False, waitForExit = False \<rparr>)) = '':extras:''
   \<and> launchAdditionalApplication linuxHost
        (addAppOptsAt (\<lambda>p a. Some (Truthy ''Error: not found''))
           \<lparr> addApp_applicationPath = '':extras:'', addApp_launchCommand = ''manual.pdf'',
             autoRunBefore = False, waitForExit = False \<rparr>)
      = (Resolved,
         [OpenExternal ''/root/Extras/manual.pdf'' True,
          Later (OpenDialog \<lparr> boxType = ''error'', title = ''Failed to Open Extras'',
                               message = ''Error: not found'' @ [CHR 0x0A]
                                         @ ''Path: /root/Extras/manual.pdf'',
                               buttons = [''Ok''] \<rparr>)])
   \<and> openExternal
        (addAppOptsAt (\<lambda>p a. Some Falsy)
           \<lparr> addApp_applicationPath = '':extras:'', addApp_launchCommand = ''soundtrack'',
             autoRunBefore = False, waitForExit = False \<rparr>) ''/root/Extras/soundtrack'' True
      = Some Falsy
   \<and> launchAdditionalApplication linuxHost
        (addAppOptsAt (\<lambda>p a. Some Falsy)
           \<lparr> addApp_applicationPath = '':extras:'', addApp_launchCommand = ''soundtrack'',
             autoRunBefore = False, waitForExit = False \<rparr>)
      = (Resolved, [OpenExternal ''/root/Extras/soundtrack'' True])
   \<and> launchAdditionalApplication linuxHost
        (addAppOptsAt (\<lambda>p a. None)
           \<lparr> addApp_applicationPath = '':extras:'', addApp_launchCommand = ''maps'',
             autoRunBefore = False, waitForExit = False \<rparr>)
      = (Resolved, [OpenExternal ''/root/Extras/maps'' True])"
proof -
  let ?o1 = "addAppOptsAt (\<lambda>p a. Some (Truthy ''Error: not found''))
        \<lparr> addApp_applicationPath = '':extras:'', addApp_launchCommand = ''manual.pdf'',
          autoRunBefore = False, waitForExit = False \<rparr>"
  let ?o2 = "addAppOptsAt (\<lambda>p a. Some Falsy)
        \<lparr> addApp_applicationPath = '':extras:'', addApp_launchCommand = ''soundtrack'',
          autoRunBefore = False, waitForExit = False \<rparr>"
  let ?o3 = "addAppOptsAt (\<lambda>p a. None)
        \<lparr> addApp_applicationPath = '':extras:'', addApp_launchCommand = ''maps'',
          autoRunBefore = False, waitForExit = False \<rparr>"
  have a1: "addApp_applicationPath (addApp ?o1) = '':extras:''"
    and a2: "addApp_applicationPath (addApp ?o2) = '':extras:''"
    and a3: "addApp_applicationPath (addApp ?o3) = '':extras:''"
    by (simp_all add: addAppOptsAt_def)
  have b1: "''/root/Extras/manual.pdf'' = fixSlashes linuxHost (pathJoin linuxHost (fpPath ?o1)
             (posixJoin linuxHost ''Extras'' (addApp_launchCommand (addApp ?o1))))"
    and b2: "''/root/Extras/soundtrack'' = fixSlashes linuxHost (pathJoin linuxHost (fpPath ?o2)
             (posixJoin linuxHost ''Extras'' (addApp_launchCommand (addApp ?o2))))"
    and b3: "''/root/Extras/maps'' = fixSlashes linuxHost (pathJoin linuxHost (fpPath ?o3)
             (posixJoin linuxHost ''Extras'' (addApp_launchCommand (addApp ?o3))))"
    by (simp_all add: addAppOptsAt_def linuxHost_def slashJoin_def toForward_def)
  have c1: "openExternal ?o1 ''/root/Extras/manual.pdf'' True = Some (Truthy ''Error: not found'')"
    and c2: "openExternal ?o2 ''/root/Extras/soundtrack'' True = Some Falsy"
    and c3: "openExternal ?o3 ''/root/Extras/maps'' True = None"
    by (simp_all add: addAppOptsAt_def)
  from c1 launchAdditionalApplication_extras [OF a1 b1]
  have 1: "launchAdditionalApplication linuxHost ?o1
      = (Resolved,
         [OpenExternal ''/root/Extras/manual.pdf'' True,
          Later (OpenDialog \<lparr> boxType = ''error'', title = ''Failed to Open Extras'',
                               message = ''Error: not found'' @ [CHR 0x0A]
                                         @ ''Path: /root/Extras/manual.pdf'',
                               buttons = [''Ok''] \<rparr>)])"
    by (simp add: prod_eq_iff)
  from c2 launchAdditionalApplication_extras [OF a2 b2]
  have 2: "launchAdditionalApplication linuxHost ?o2
             = (Resolved, [OpenExternal ''/root/Extras/soundtrack'' True])"
    by (simp add: prod_eq_iff)
  from c3 launchAdditionalApplication_extras [OF a3 b3]
  have 3: "launchAdditionalApplication linuxHost ?o3
             = (Resolved, [OpenExternal ''/root/Extras/maps'' True])"
    by (simp add: prod_eq_iff)
  from a1 c2 1 2 3 show ?thesis
    by simp
qed

text \<open>
  C8. When the game record is a placeholder \<open>launchGame\<close> resolves with an empty
  trace on every host and for all other options: no process, no additional
  application, no dialog, no log entry.
\<close>

theorem launchGame_placeholder:
  assumes "placeholder (game opts)"
  shows "launchGame h opts = (Resolved, [])"
  using assms by (simp add: launchGame_def)

theorem launchGame_placeholder_witness:
  "placeholder
     (game (gameOptsAt (\<lambda>p a. None)
        \<lparr> game_title = ''Quake'', game_applicationPath = ''games/quake/quake.command'',
          game_launchCommand = [], placeholder = True \<rparr>
        (Some [\<lparr> addApp_applicationPath = ''tools/mount.command'', addApp_launchCommand = [],
                 autoRunBefore = True, waitForExit = True \<rparr>])))
   \<and> launchGame linuxHost
        (gameOptsAt (\<lambda>p a. None)
           \<lparr> game_title = ''Quake'', game_applicationPath = ''games/quake/quake.command'',
             game_launchCommand = [], placeholder = True \<rparr>
           (Some [\<lparr> addApp_applicationPath = ''tools/mount.command'', addApp_launchCommand = [],
                    autoRunBefore = True, waitForExit = True \<rparr>]))
      = (Resolved, [])"
  using launchGame_placeholder
    [of "gameOptsAt (\<lambda>p a. None)
           \<lparr> game_title = ''Quake'', game_applicationPath = ''games/quake/quake.command'',
             game_launchCommand = [], placeholder = True \<rparr>
           (Some [\<lparr> addApp_applicationPath = ''tools/mount.command'', addApp_launchCommand = [],
                    autoRunBefore = True, waitForExit = True \<rparr>])" linuxHost]
  by (simp add: gameOptsAt_def)

section \<open>Launch orchestrator: spawn failures\<close>




section \<open>Launch orchestrator: order of the pre-run launches\<close>




section \<open>Launch orchestrator: the setup path\<close>

text \<open>
  C3. \<open>launchGameSetup\<close> rewrites the path with \<open>String.replace\<close> on the file name,
  which replaces the first occurrence of that text in the path, not the filename
  component. For \<open>games/quake/quake\<close> the file name is \<open>quake\<close> and its first
  occurrence is the directory: the process started is
  \<open>/root/games/install.command/quake\<close>, where the filename component replaced
  would give \<open>/root/games/quake/install.command\<close>.
\<close>

theorem launchGameSetup_replaces_first_occurrence:
  "getFilename ''games/quake/quake'' = ''quake''
   \<and> launchGameSetup linuxHost
        (gameOptsAt (\<lambda>p a. None)
           \<lparr> game_title = ''Quake'', game_applicationPath = ''games/quake/quake'',
             game_launchCommand = [], placeholder = False \<rparr> None)
      = (Resolved,
         [Exec ''/root/games/install.command/quake'' [],
          Later (Log ''Game Launcher'' (ProcessEventMsg ''exit'' 4242 ''0'')),
          Log ''Game Launcher''
            (LaunchGameSetupMsg ''Quake'' (Some 4242) ''games/quake/quake'' []
               \<lparr> cmdline = ''/root/games/install.command/quake'', cwd = [] \<rparr>)])"
  by (simp add: launchGameSetup_def getFilename_def isSeparator_def gameOptsAt_def
        linuxHost_def resolveApplicationPath_def endsWith_def runDirectly_def exitsAtOnce_def
        logProcessOutput_def logStuff_def logSource_def slashJoin_def toForward_def
        emptyMappings_def Let_def)

section \<open>Back-end start-up: the command-mapping file\<close>

text \<open>
  C9. When start-up runs for the first time, the init message parses and the
  preferences and configuration files are read, and reading the file
  \<open>mappings.<platform>.json\<close> under the base path throws (it is missing or is not
  JSON), then \<open>initialize\<close> writes one line with \<open>console.error\<close>, leaves
  \<open>commandMappings\<close> at the table it was declared with (the default mapping with
  the empty command, no extension rules) and goes on to the statement after the
  \<open>catch\<close>.
\<close>

theorem initialize_mappings_unreadable:
  assumes "\<not> isInitialized state"
      and "parseArgs env msg = Inr content"
      and "readPreferences env (pathJoin h (arg_configFolder content) ''preferences.json'') = Inr p"
      and "readConfig env (pathJoin h (arg_configFolder content) ''config.json'') = Inr c"
      and "readJsonFile env
             (pathJoin h (arg_basePath content) (''mappings.'' @ platform h @ ''.json'')) = Inl e"
      and "commandMappings state = \<lparr> defaultMapping = EmptyCommandMapping, commandsMapping = [] \<rparr>"
  shows "fst (initialize h env msg state) = Continues
     \<and> commandMappings (fst (snd (initialize h env msg state)))
         = \<lparr> defaultMapping = EmptyCommandMapping, commandsMapping = [] \<rparr>
     \<and> command (defaultMapping (commandMappings (fst (snd (initialize h env msg state))))) = []
     \<and> snd (snd (initialize h env msg state)) = [mappingsWarning h e]"
  using assms
  by (simp add: initialize_def Let_def preferencesFilename_def configFilename_def
        commandMappingsFilename_def EmptyCommandMapping_def)

theorem initialize_mappings_unreadable_witness:
  "\<not> isInitialized (state0 :: (unit, unit) BackState)
   \<and> commandMappings (state0 :: (unit, unit) BackState)
       = \<lparr> defaultMapping = EmptyCommandMapping, commandsMapping = [] \<rparr>
   \<and> initialize linuxHost
        \<lparr> parseArgs = (\<lambda>m. Inr \<lparr> arg_secret = ''s3cret'', arg_configFolder = ''/home/u/.config/exogui'',
                                  arg_exePath = ''/opt/exogui/exogui'', arg_basePath = ''/opt/exogui'' \<rparr>),
          readPreferences = (\<lambda>f. Inr ()), readConfig = (\<lambda>f. Inr ()),
          readJsonFile = (\<lambda>f. if f = ''/opt/exogui/mappings.linux.json''
                                then Inl ''Error: ENOENT: no such file or directory''
                                else Inr emptyMappings) \<rparr>
        ''{}'' (state0 :: (unit, unit) BackState)
      = (Continues,
         \<lparr> isInitialized = True, secret = Some ''s3cret'', preferences = Some (),
           config = Some (), configFolder = Some ''/home/u/.config/exogui'',
           exePath = Some ''/opt/exogui/exogui'', basePath = Some ''/opt/exogui'',
           localeCode = Some ''unknown'',
           commandMappings = \<lparr> defaultMapping = EmptyCommandMapping, commandsMapping = [] \<rparr> \<rparr>,
         [mappingsWarning linuxHost ''Error: ENOENT: no such file or directory''])"
proof -
  let ?content = "\<lparr> arg_secret = ''s3cret'', arg_configFolder = ''/home/u/.config/exogui'',
                    arg_exePath = ''/opt/exogui/exogui'', arg_basePath = ''/opt/exogui'' \<rparr>"
  let ?env = "\<lparr> parseArgs = (\<lambda>m. Inr ?content),
          readPreferences = (\<lambda>f. Inr ()), readConfig = (\<lambda>f. Inr ()),
          readJsonFile = (\<lambda>f. if f = ''/opt/exogui/mappings.linux.json''
                                then Inl ''Error: ENOENT: no such file or directory''
                                else Inr emptyMappings) \<rparr>"
  let ?s = "state0 :: (unit, unit) BackState"
  have a: "\<not> isInitialized ?s"
    and f: "commandMappings ?s = \<lparr> defaultMapping = EmptyCommandMapping, commandsMapping = [] \<rparr>"
    by (simp_all add: state0_def)
  have b: "parseArgs ?env ''{}'' = Inr ?content"
    and c: "readPreferences ?env
              (pathJoin linuxHost (arg_configFolder ?content) ''preferences.json'') = Inr ()"
    and d: "readConfig ?env (pathJoin linuxHost (arg_configFolder ?content) ''config.json'') = Inr ()"
    by simp_all
  have e: "readJsonFile ?env
             (pathJoin linuxHost (arg_basePath ?content)
                (''mappings.'' @ platform linuxHost @ ''.json''))
           = Inl ''Error: ENOENT: no such file or directory''"
    by (simp add: linuxHost_def slashJoin_def)
  note T = initialize_mappings_unreadable [OF a b c d e f]
  have g: "fst (snd (initialize linuxHost ?env ''{}'' ?s))
           = \<lparr> isInitialized = True, secret = Some ''s3cret'', preferences = Some (),
           config = Some (), configFolder = Some ''/home/u/.config/exogui'',
           exePath = Some ''/opt/exogui/exogui'', basePath = Some ''/opt/exogui'',
           localeCode = Some ''unknown'',
           commandMappings = commandMappings (fst (snd (initialize linuxHost ?env ''{}'' ?s))) \<rparr>"
    by (simp add: initialize_def state0_def Let_def linuxHost_def slashJoin_def
          preferencesFilename_def configFilename_def commandMappingsFilename_def)
  from a f T g show ?thesis
    by (simp add: prod_eq_iff)
qed

end
